theory Spec2Isabelle
  imports Main "HOL-Library.Word" "HOL-Library.Signed_Division"
begin

unbundle bit_operations_syntax

section \<open>The stepper driver (stepper.h, stepper.c)\<close>

text \<open>
  The three motor pins of stepper.h. The driver's enable input is active low:
  stepper.c enables the motor with \<open>nrf_gpio_pin_clear(motor_enable)\<close> and
  disables it with \<open>nrf_gpio_pin_set(motor_enable)\<close>.
\<close>

datatype pin = motor_step | motor_dir | motor_enable

definition steps_to_endstop :: int where
  "steps_to_endstop = 100"

definition stepper_speed :: int where
  "stepper_speed = 800"

text \<open>
  Every call that stepper.c makes into the GPIO HAL and the kernel is recorded,
  in program order, in a trace; the pin configuration and the output latch are
  kept beside it.
\<close>

datatype gpio_event =
    Pin_cfg_output pin
  | Pin_set pin
  | Pin_clear pin
  | Usleep int

record gpio =
  cfg_output :: "pin \<Rightarrow> bool"
  out_level :: "pin \<Rightarrow> bool"
  trace :: "gpio_event list"

definition nrf_gpio_cfg_output :: "pin \<Rightarrow> gpio \<Rightarrow> gpio" where
  "nrf_gpio_cfg_output p g =
     g\<lparr>cfg_output := (cfg_output g)(p := True), trace := trace g @ [Pin_cfg_output p]\<rparr>"

definition nrf_gpio_pin_set :: "pin \<Rightarrow> gpio \<Rightarrow> gpio" where
  "nrf_gpio_pin_set p g =
     g\<lparr>out_level := (out_level g)(p := True), trace := trace g @ [Pin_set p]\<rparr>"

definition nrf_gpio_pin_clear :: "pin \<Rightarrow> gpio \<Rightarrow> gpio" where
  "nrf_gpio_pin_clear p g =
     g\<lparr>out_level := (out_level g)(p := False), trace := trace g @ [Pin_clear p]\<rparr>"

definition k_usleep :: "int \<Rightarrow> gpio \<Rightarrow> gpio" where
  "k_usleep us g = g\<lparr>trace := trace g @ [Usleep us]\<rparr>"

definition stepper_init :: "gpio \<Rightarrow> gpio" where
  "stepper_init g =
     (let g1 = nrf_gpio_cfg_output motor_step g;
          g2 = nrf_gpio_cfg_output motor_dir g1;
          g3 = nrf_gpio_cfg_output motor_enable g2;
          g4 = nrf_gpio_pin_set motor_dir g3
      in nrf_gpio_pin_set motor_enable g4)"



text \<open>The body of the \<open>for\<close> loop of \<open>stepper_run\<close>: one step pulse.\<close>

definition step_pulse :: "gpio \<Rightarrow> gpio" where
  "step_pulse g =
     k_usleep stepper_speed
       (nrf_gpio_pin_clear motor_step
          (k_usleep stepper_speed
             (nrf_gpio_pin_set motor_step g)))"

text \<open>\<open>for (int i = 0; i < steps_to_endstop; i++) { ... }\<close>, from the current \<open>i\<close>.\<close>

function stepper_loop :: "int \<Rightarrow> gpio \<Rightarrow> gpio" where
  "stepper_loop i g =
     (if i < steps_to_endstop then stepper_loop (i + 1) (step_pulse g) else g)"
  by pat_completeness auto
termination
  by (relation "measure (\<lambda>(i, g). nat (steps_to_endstop - i))") auto

declare stepper_loop.simps [simp del]

definition stepper_run :: "bool \<Rightarrow> gpio \<Rightarrow> gpio" where
  "stepper_run dir g =
     (let g1 = nrf_gpio_pin_clear motor_enable g;
          g2 = (if dir then nrf_gpio_pin_set motor_dir g1
                else nrf_gpio_pin_clear motor_dir g1);
          g3 = stepper_loop 0 g2
      in nrf_gpio_pin_set motor_enable g3)"

text \<open>The events of one step pulse, and of the whole run, as the source orders them.\<close>

definition pulse_events :: "gpio_event list" where
  "pulse_events =
     [Pin_set motor_step, Usleep 800, Pin_clear motor_step, Usleep 800]"

definition run_events :: "bool \<Rightarrow> gpio_event list" where
  "run_events dir =
     [Pin_clear motor_enable, (if dir then Pin_set motor_dir else Pin_clear motor_dir)]
     @ concat (replicate 100 pulse_events)
     @ [Pin_set motor_enable]"

section \<open>The Zigbee application (main.c)\<close>

subsection \<open>Types and constants of the ZBOSS stack and the DK library\<close>

text \<open>
  The headers of the ZBOSS stack and of the DK buttons-and-LEDs library are not part of
  the repository. The identifiers below carry the values those headers and the Zigbee
  Cluster Library give them: the On/Off cluster is cluster 0x0006 and its OnOff attribute
  is attribute 0x0000, the default of the IdentifyTime attribute is 0, \<open>DK_LED1\<close> to
  \<open>DK_LED4\<close> are the four board LEDs and \<open>DK_BTN4_MSK\<close> is bit 3 of the button mask.
  Cluster and attribute identifiers are 16 bits wide in the callback parameter; a buffer
  reference \<open>zb_bufid_t\<close> is one byte.
\<close>

type_synonym zb_bufid_t = "8 word"

datatype zb_ret_t = RET_OK | RET_INVALID_STATE | RET_NOT_IMPLEMENTED | RET_OTHER int

definition CHICKEN_COOP_ENDPOINT :: "8 word" where
  "CHICKEN_COOP_ENDPOINT = 10"

definition BULB_INIT_BASIC_APP_VERSION :: "8 word" where
  "BULB_INIT_BASIC_APP_VERSION = 1"

definition BULB_INIT_BASIC_STACK_VERSION :: "8 word" where
  "BULB_INIT_BASIC_STACK_VERSION = 10"

definition BULB_INIT_BASIC_HW_VERSION :: "8 word" where
  "BULB_INIT_BASIC_HW_VERSION = 11"

definition BULB_INIT_BASIC_MANUF_NAME :: string where
  "BULB_INIT_BASIC_MANUF_NAME = ''Nordic''"

definition BULB_INIT_BASIC_MODEL_ID :: string where
  "BULB_INIT_BASIC_MODEL_ID = ''Chicken_Coop_v0.1''"

definition BULB_INIT_BASIC_DATE_CODE :: string where
  "BULB_INIT_BASIC_DATE_CODE = ''20231121''"

definition BULB_INIT_BASIC_LOCATION_DESC :: string where
  "BULB_INIT_BASIC_LOCATION_DESC = ''Outside''"

definition ZB_ZCL_BASIC_POWER_SOURCE_DC_SOURCE :: "8 word" where
  "ZB_ZCL_BASIC_POWER_SOURCE_DC_SOURCE = 4"

definition ZB_ZCL_BASIC_ENV_UNSPECIFIED :: "8 word" where
  "ZB_ZCL_BASIC_ENV_UNSPECIFIED = 0"

definition BULB_INIT_BASIC_POWER_SOURCE :: "8 word" where
  "BULB_INIT_BASIC_POWER_SOURCE = ZB_ZCL_BASIC_POWER_SOURCE_DC_SOURCE"

definition BULB_INIT_BASIC_PH_ENV :: "8 word" where
  "BULB_INIT_BASIC_PH_ENV = ZB_ZCL_BASIC_ENV_UNSPECIFIED"

definition ZB_ZCL_CLUSTER_ID_ON_OFF :: "16 word" where
  "ZB_ZCL_CLUSTER_ID_ON_OFF = 6"

definition ZB_ZCL_ATTR_ON_OFF_ON_OFF_ID :: "16 word" where
  "ZB_ZCL_ATTR_ON_OFF_ON_OFF_ID = 0"

definition ZB_ZCL_IDENTIFY_IDENTIFY_TIME_DEFAULT_VALUE :: "16 word" where
  "ZB_ZCL_IDENTIFY_IDENTIFY_TIME_DEFAULT_VALUE = 0"

definition ZB_ZCL_ON_OFF_IS_ON :: "8 word" where
  "ZB_ZCL_ON_OFF_IS_ON = 1"

datatype led = DK_LED1 | DK_LED2 | DK_LED3 | DK_LED4

definition RUN_STATUS_LED :: led where
  "RUN_STATUS_LED = DK_LED1"

definition ZIGBEE_NETWORK_STATE_LED :: led where
  "ZIGBEE_NETWORK_STATE_LED = DK_LED3"

definition IDENTIFY_LED :: led where
  "IDENTIFY_LED = DK_LED4"

definition DK_BTN4_MSK :: "32 word" where
  "DK_BTN4_MSK = push_bit 3 1"

definition IDENTIFY_MODE_BUTTON :: "32 word" where
  "IDENTIFY_MODE_BUTTON = DK_BTN4_MSK"

definition FACTORY_RESET_BUTTON :: "32 word" where
  "FACTORY_RESET_BUTTON = IDENTIFY_MODE_BUTTON"

subsection \<open>The application state\<close>

text \<open>
  \<open>dev_ctx\<close>: the attribute storage that main.c reads or writes. The basic-cluster
  strings are ZCL strings, a length byte followed by the characters, kept in a fixed
  buffer. The scenes and groups attributes and \<open>sw_ver\<close> are never touched by main.c and
  are left out.
\<close>

record bulb_device_ctx_t =
  zcl_version :: "8 word"
  app_version :: "8 word"
  stack_version :: "8 word"
  hw_version :: "8 word"
  mf_name :: string
  model_id :: string
  date_code :: string
  power_source :: "8 word"
  location_id :: string
  ph_env :: "8 word"
  identify_time :: "16 word"
  on_off :: "8 word"

text \<open>The functions main.c hands to the ZBOSS scheduler.\<close>

datatype callback = start_identifying_cb | toggle_identify_led_cb

text \<open>
  An alarm delay, as main.c writes it: \<open>ZB_MILLISECONDS_TO_BEACON_INTERVAL(ms)\<close>.
  The conversion into beacon intervals is the stack's and is kept symbolic.
\<close>

datatype zb_time_t = ZB_MILLISECONDS_TO_BEACON_INTERVAL nat

text \<open>The calls of main.c into the stack's finding-and-binding procedure.\<close>

datatype zb_call =
    Zb_bdb_finding_binding_target "8 word"
  | Zb_bdb_finding_binding_target_cancel

datatype device_cb_id = ZB_ZCL_SET_ATTR_VALUE_CB_ID | ZB_ZCL_OTHER_CB_ID nat

datatype log_level = LOG_LEVEL_ERR | LOG_LEVEL_WRN | LOG_LEVEL_INF | LOG_LEVEL_DBG

datatype log_arg = Str string | Num int | Cb_id device_cb_id | Ret zb_ret_t

type_synonym log_entry = "log_level \<times> string \<times> log_arg list"

text \<open>
  The whole state the application code works on. \<open>blink_status\<close> is the function-local
  \<open>static int\<close> of \<open>toggle_identify_led\<close>; \<open>cb_queue\<close> and \<open>alarms\<close> are the scheduler's
  pending callbacks and alarms; \<open>zb_joined\<close> is what \<open>ZB_JOINED()\<close> reads;
  \<open>factory_reset_context\<close> is the state of the factory-reset collaborator, of which
  main.c knows nothing.
\<close>

record 'f app_state =
  dev_ctx :: bulb_device_ctx_t
  blink_status :: "32 word"
  leds :: "led \<Rightarrow> bool"
  motor :: gpio
  cb_queue :: "(callback \<times> zb_bufid_t) list"
  alarms :: "(callback \<times> zb_bufid_t \<times> zb_time_t) list"
  zb_joined :: bool
  zb_calls :: "zb_call list"
  factory_reset_context :: 'f
  log_out :: "log_entry list"

subsection \<open>Logging, LEDs, scheduler and attribute macros\<close>

fun level_num :: "log_level \<Rightarrow> nat" where
  "level_num LOG_LEVEL_ERR = 1"
| "level_num LOG_LEVEL_WRN = 2"
| "level_num LOG_LEVEL_INF = 3"
| "level_num LOG_LEVEL_DBG = 4"

text \<open>\<open>LOG_MODULE_REGISTER(app, LOG_LEVEL_INF)\<close>: messages above this level are dropped.\<close>

definition app_log_level :: log_level where
  "app_log_level = LOG_LEVEL_INF"

definition LOG :: "log_level \<Rightarrow> string \<Rightarrow> log_arg list \<Rightarrow> 'f app_state \<Rightarrow> 'f app_state" where
  "LOG lvl fmt args s =
     (if level_num lvl \<le> level_num app_log_level
      then s\<lparr>log_out := log_out s @ [(lvl, fmt, args)]\<rparr>
      else s)"

text \<open>\<open>dk_set_led(led, val)\<close>: the LED is on exactly when \<open>val\<close> is not zero.\<close>

definition dk_set_led :: "led \<Rightarrow> 32 word \<Rightarrow> 'f app_state \<Rightarrow> 'f app_state" where
  "dk_set_led l val s = s\<lparr>leds := (leds s)(l := (val \<noteq> 0))\<rparr>"

text \<open>
  Modelled from the spec: the ZBOSS scheduler macros, which are not in the repository.
  A callback is queued for the next dispatch; an alarm is queued with its delay.
  Cancelling deschedules one pending alarm of the function, the first whose parameter
  matches, where \<open>ZB_ALARM_ANY_PARAM\<close> matches every parameter; it is no error when
  there is none.
\<close>

definition ZB_SCHEDULE_APP_CALLBACK ::
    "callback \<Rightarrow> zb_bufid_t \<Rightarrow> 'f app_state \<Rightarrow> 'f app_state" where
  "ZB_SCHEDULE_APP_CALLBACK f param s = s\<lparr>cb_queue := cb_queue s @ [(f, param)]\<rparr>"

definition ZB_SCHEDULE_APP_ALARM ::
    "callback \<Rightarrow> zb_bufid_t \<Rightarrow> zb_time_t \<Rightarrow> 'f app_state \<Rightarrow> 'f app_state" where
  "ZB_SCHEDULE_APP_ALARM f param t s = s\<lparr>alarms := alarms s @ [(f, param, t)]\<rparr>"

definition ZB_ALARM_ANY_PARAM :: "8 word" where
  "ZB_ALARM_ANY_PARAM = - 1"

fun cancel_alarm ::
    "callback \<Rightarrow> 8 word \<Rightarrow> (callback \<times> zb_bufid_t \<times> zb_time_t) list
       \<Rightarrow> (callback \<times> zb_bufid_t \<times> zb_time_t) list" where
  "cancel_alarm f param [] = []"
| "cancel_alarm f param (a # as) =
     (if fst a = f \<and> (param = ZB_ALARM_ANY_PARAM \<or> fst (snd a) = param) then as
      else a # cancel_alarm f param as)"

definition ZB_SCHEDULE_APP_ALARM_CANCEL ::
    "callback \<Rightarrow> 8 word \<Rightarrow> 'f app_state \<Rightarrow> 'f app_state" where
  "ZB_SCHEDULE_APP_ALARM_CANCEL f param s = s\<lparr>alarms := cancel_alarm f param (alarms s)\<rparr>"

text \<open>
  Modelled from the spec: \<open>ZB_ZCL_SET_ATTRIBUTE\<close>, which is not in the repository,
  writes the value into the attribute's storage. The only attribute main.c sets through
  it is OnOff of the On/Off cluster on the application's endpoint, whose storage is
  \<open>dev_ctx.on_off_attr.on_off\<close>; a one-byte value is written.
\<close>

definition ZB_ZCL_SET_ATTRIBUTE ::
    "8 word \<Rightarrow> 16 word \<Rightarrow> 16 word \<Rightarrow> 8 word \<Rightarrow> 'f app_state \<Rightarrow> 'f app_state" where
  "ZB_ZCL_SET_ATTRIBUTE ep cluster attr val s =
     (if ep = CHICKEN_COOP_ENDPOINT \<and> cluster = ZB_ZCL_CLUSTER_ID_ON_OFF
         \<and> attr = ZB_ZCL_ATTR_ON_OFF_ON_OFF_ID
      then s\<lparr>dev_ctx := (dev_ctx s)\<lparr>on_off := val\<rparr>\<rparr>
      else s)"

text \<open>
  \<open>ZB_ZCL_SET_STRING_VAL(str, val, len)\<close>: the first byte of the buffer gets the length,
  the next \<open>len\<close> bytes the characters; the rest of the buffer keeps its content.
\<close>

definition ZB_ZCL_SET_STRING_VAL :: "string \<Rightarrow> string \<Rightarrow> nat \<Rightarrow> string" where
  "ZB_ZCL_SET_STRING_VAL str val len = char_of len # take len val @ drop (Suc len) str"

definition ZB_ZCL_STRING_CONST_SIZE :: "string \<Rightarrow> nat" where
  "ZB_ZCL_STRING_CONST_SIZE c = length c"

text \<open>
  \<open>ZB_ERROR_CHECK\<close>: any code other than \<open>RET_OK\<close> ends in the Zigbee error handler,
  which does not return. The abort is the left summand, with the code and the state
  reached.
\<close>

definition ZB_ERROR_CHECK ::
    "zb_ret_t \<Rightarrow> 'f app_state \<Rightarrow> (zb_ret_t \<times> 'f app_state) + 'f app_state" where
  "ZB_ERROR_CHECK code s = (if code = RET_OK then Inr s else Inl (code, s))"

subsection \<open>The functions of main.c\<close>

text \<open>
  \<open>start_identifying\<close>. The result of the stack's \<open>zb_bdb_finding_binding_target\<close> is
  the parameter \<open>zb_err_code\<close>; what the stack does inside the call is not part of the
  repository, the call itself is recorded in \<open>zb_calls\<close>.
\<close>

definition start_identifying ::
    "zb_ret_t \<Rightarrow> zb_bufid_t \<Rightarrow> 'f app_state \<Rightarrow> (zb_ret_t \<times> 'f app_state) + 'f app_state" where
  "start_identifying zb_err_code bufid s =
     (if zb_joined s then
        (if identify_time (dev_ctx s) = ZB_ZCL_IDENTIFY_IDENTIFY_TIME_DEFAULT_VALUE then
           (let s1 = s\<lparr>zb_calls := zb_calls s
                        @ [Zb_bdb_finding_binding_target CHICKEN_COOP_ENDPOINT]\<rparr>
            in if zb_err_code = RET_OK then
                 Inr (LOG LOG_LEVEL_INF ''Enter identify mode'' [] s1)
               else if zb_err_code = RET_INVALID_STATE then
                 Inr (LOG LOG_LEVEL_WRN ''RET_INVALID_STATE - Cannot enter identify mode'' [] s1)
               else ZB_ERROR_CHECK zb_err_code s1)
         else
           (let s1 = LOG LOG_LEVEL_INF ''Cancel identify mode'' [] s
            in Inr (s1\<lparr>zb_calls := zb_calls s1 @ [Zb_bdb_finding_binding_target_cancel]\<rparr>)))
      else
        Inr (LOG LOG_LEVEL_WRN ''Device not in a network - cannot enter identify mode'' [] s))"

text \<open>
  \<open>button_changed\<close>. The factory-reset collaborator is given by its two functions,
  \<open>was_factory_reset_done\<close> and \<open>check_factory_reset_button\<close>, acting on its own state.
\<close>

definition button_changed ::
    "('f \<Rightarrow> bool) \<Rightarrow> (32 word \<Rightarrow> 32 word \<Rightarrow> 'f \<Rightarrow> 'f)
       \<Rightarrow> 32 word \<Rightarrow> 32 word \<Rightarrow> 'f app_state \<Rightarrow> 'f app_state" where
  "button_changed was_factory_reset_done check_factory_reset_button button_state has_changed s =
     (let s1 =
        (if IDENTIFY_MODE_BUTTON AND has_changed \<noteq> 0 then
           (if IDENTIFY_MODE_BUTTON AND button_state \<noteq> 0 then s
            else if was_factory_reset_done (factory_reset_context s) then
              LOG LOG_LEVEL_DBG ''After Factory Reset - ignore button release'' [] s
            else ZB_SCHEDULE_APP_CALLBACK start_identifying_cb 0 s)
         else s)
      in s1\<lparr>factory_reset_context :=
              check_factory_reset_button button_state has_changed (factory_reset_context s1)\<rparr>)"

definition on_off_set_value :: "8 word \<Rightarrow> 'f app_state \<Rightarrow> 'f app_state" where
  "on_off_set_value on s =
     (let s1 = LOG LOG_LEVEL_INF ''Set ON/OFF value: %i'' [Num (uint on)] s;
          s2 = ZB_ZCL_SET_ATTRIBUTE CHICKEN_COOP_ENDPOINT ZB_ZCL_CLUSTER_ID_ON_OFF
                 ZB_ZCL_ATTR_ON_OFF_ON_OFF_ID on s1
      in if on \<noteq> 0 then s2\<lparr>motor := stepper_run True (motor s2)\<rparr>
         else s2\<lparr>motor := stepper_run False (motor s2)\<rparr>)"

text \<open>
  \<open>toggle_identify_led\<close>. \<open>++blink_status\<close> on the 32-bit \<open>int\<close> wraps in two's
  complement; \<open>% 2\<close> is C's remainder, which truncates towards zero (\<open>smod\<close>), and the
  \<open>int\<close> result is converted to the \<open>uint32_t\<close> parameter of \<open>dk_set_led\<close>.
\<close>

definition toggle_identify_led :: "zb_bufid_t \<Rightarrow> 'f app_state \<Rightarrow> 'f app_state" where
  "toggle_identify_led bufid s =
     (let s1 = s\<lparr>blink_status := blink_status s + 1\<rparr>;
          s2 = dk_set_led IDENTIFY_LED (word_of_int (sint (blink_status s1) smod 2)) s1
      in ZB_SCHEDULE_APP_ALARM toggle_identify_led_cb bufid
           (ZB_MILLISECONDS_TO_BEACON_INTERVAL 100) s2)"

definition identify_cb :: "zb_bufid_t \<Rightarrow> 'f app_state \<Rightarrow> 'f app_state" where
  "identify_cb bufid s =
     (if bufid \<noteq> 0 then ZB_SCHEDULE_APP_CALLBACK toggle_identify_led_cb bufid s
      else dk_set_led IDENTIFY_LED 0
             (ZB_SCHEDULE_APP_ALARM_CANCEL toggle_identify_led_cb ZB_ALARM_ANY_PARAM s))"

text \<open>
  \<open>bulb_clusters_attr_init\<close>. \<open>ZB_ZCL_VERSION\<close> comes from the stack's headers and is a
  parameter.
\<close>

definition bulb_clusters_attr_init :: "8 word \<Rightarrow> 'f app_state \<Rightarrow> 'f app_state" where
  "bulb_clusters_attr_init ZB_ZCL_VERSION s =
     (let c = dev_ctx s;
          c1 = c\<lparr>zcl_version := ZB_ZCL_VERSION,
                 app_version := BULB_INIT_BASIC_APP_VERSION,
                 stack_version := BULB_INIT_BASIC_STACK_VERSION,
                 hw_version := BULB_INIT_BASIC_HW_VERSION,
                 mf_name := ZB_ZCL_SET_STRING_VAL (mf_name c) BULB_INIT_BASIC_MANUF_NAME
                              (ZB_ZCL_STRING_CONST_SIZE BULB_INIT_BASIC_MANUF_NAME),
                 model_id := ZB_ZCL_SET_STRING_VAL (model_id c) BULB_INIT_BASIC_MODEL_ID
                               (ZB_ZCL_STRING_CONST_SIZE BULB_INIT_BASIC_MODEL_ID),
                 date_code := ZB_ZCL_SET_STRING_VAL (date_code c) BULB_INIT_BASIC_DATE_CODE
                                (ZB_ZCL_STRING_CONST_SIZE BULB_INIT_BASIC_DATE_CODE),
                 power_source := BULB_INIT_BASIC_POWER_SOURCE,
                 location_id := ZB_ZCL_SET_STRING_VAL (location_id c)
                                  BULB_INIT_BASIC_LOCATION_DESC
                                  (ZB_ZCL_STRING_CONST_SIZE BULB_INIT_BASIC_LOCATION_DESC),
                 ph_env := BULB_INIT_BASIC_PH_ENV,
                 identify_time := ZB_ZCL_IDENTIFY_IDENTIFY_TIME_DEFAULT_VALUE,
                 on_off := ZB_ZCL_ON_OFF_IS_ON\<rparr>;
          s1 = s\<lparr>dev_ctx := c1\<rparr>
      in ZB_ZCL_SET_ATTRIBUTE CHICKEN_COOP_ENDPOINT ZB_ZCL_CLUSTER_ID_ON_OFF
           ZB_ZCL_ATTR_ON_OFF_ON_OFF_ID (on_off (dev_ctx s1)) s1)"

text \<open>
  The callback parameter of \<open>zcl_device_cb\<close>, as far as the function reads or writes it.
\<close>

record zb_zcl_set_attr_value_param_t =
  cluster_id :: "16 word"
  attr_id :: "16 word"
  data8 :: "8 word"

record zb_zcl_device_callback_param_t =
  device_cb_id :: device_cb_id
  status :: zb_ret_t
  set_attr_value_param :: zb_zcl_set_attr_value_param_t

text \<open>
  \<open>zcl_device_cb\<close>. The locals \<open>cluster_id\<close> and \<open>attr_id\<close> are declared \<open>zb_uint8_t\<close>, so
  the 16-bit identifiers of the parameter are cut to their low byte before they are
  compared. \<open>zcl_scenes_cb\<close>, from the scenes library, is a parameter: it answers whether
  it handled the callback and may change the parameter and the attribute storage.
\<close>

definition zcl_device_cb ::
    "(zb_zcl_device_callback_param_t \<Rightarrow> bulb_device_ctx_t
        \<Rightarrow> bool \<times> zb_zcl_device_callback_param_t \<times> bulb_device_ctx_t)
     \<Rightarrow> zb_zcl_device_callback_param_t \<Rightarrow> 'f app_state
     \<Rightarrow> zb_zcl_device_callback_param_t \<times> 'f app_state" where
  "zcl_device_cb zcl_scenes_cb device_cb_param s =
     (let s1 = LOG LOG_LEVEL_INF ''%s id %hd''
                 [Str ''zcl_device_cb'', Cb_id (device_cb_id device_cb_param)] s;
          p1 = device_cb_param\<lparr>status := RET_OK\<rparr>;
          (p2, s2) =
            (case device_cb_id p1 of
               ZB_ZCL_SET_ATTR_VALUE_CB_ID \<Rightarrow>
                 (let cluster_id8 = (ucast (cluster_id (set_attr_value_param p1)) :: 8 word);
                      attr_id8 = (ucast (attr_id (set_attr_value_param p1)) :: 8 word)
                  in if (ucast cluster_id8 :: 16 word) = ZB_ZCL_CLUSTER_ID_ON_OFF then
                       (let val = data8 (set_attr_value_param p1);
                            s2 = LOG LOG_LEVEL_INF ''on/off attribute setting to %hd''
                                   [Num (uint val)] s1
                        in if (ucast attr_id8 :: 16 word) = ZB_ZCL_ATTR_ON_OFF_ON_OFF_ID
                           then (p1, on_off_set_value val s2)
                           else (p1, s2))
                     else
                       (p1\<lparr>status := RET_NOT_IMPLEMENTED\<rparr>,
                        LOG LOG_LEVEL_INF ''Unhandled cluster attribute id: %d''
                          [Num (uint cluster_id8)] s1))
             | ZB_ZCL_OTHER_CB_ID n \<Rightarrow>
                 (case zcl_scenes_cb p1 (dev_ctx s1) of
                    (handled, p', c') \<Rightarrow>
                      (if \<not> handled then p'\<lparr>status := RET_NOT_IMPLEMENTED\<rparr> else p',
                       s1\<lparr>dev_ctx := c'\<rparr>)))
      in (p2, LOG LOG_LEVEL_INF ''%s status: %hd'' [Str ''zcl_device_cb'', Ret (status p2)] s2))"

text \<open>
  The state at power-on: static storage is zero, the LEDs are off, no pin is configured,
  nothing is scheduled. The sizes of the string buffers are those of the stack's
  \<open>zb_zcl_basic_attrs_ext_t\<close>.
\<close>

definition power_on :: "'f \<Rightarrow> 'f app_state" where
  "power_on fr =
     \<lparr>dev_ctx = \<lparr>zcl_version = 0, app_version = 0, stack_version = 0, hw_version = 0,
                  mf_name = replicate 33 (CHR 0x00), model_id = replicate 33 (CHR 0x00),
                  date_code = replicate 17 (CHR 0x00), power_source = 0,
                  location_id = replicate 17 (CHR 0x00), ph_env = 0,
                  identify_time = 0, on_off = 0\<rparr>,
      blink_status = 0,
      leds = (\<lambda>l. False),
      motor = \<lparr>cfg_output = (\<lambda>p. False), out_level = (\<lambda>p. False), trace = []\<rparr>,
      cb_queue = [],
      alarms = [],
      zb_joined = False,
      zb_calls = [],
      factory_reset_context = fr,
      log_out = []\<rparr>"

text \<open>
  The part of \<open>main\<close> before its endless heartbeat loop that acts on this state: the
  start-up log line, \<open>bulb_clusters_attr_init()\<close>, then, after the stack is started,
  the second log line and \<open>stepper_init()\<close>. The other calls register callbacks or
  start collaborators; their error returns, which \<open>main\<close> would log, are taken to be
  zero.
\<close>

definition main_init :: "8 word \<Rightarrow> 'f \<Rightarrow> 'f app_state" where
  "main_init ZB_ZCL_VERSION fr =
     (let s0 = LOG LOG_LEVEL_INF ''Starting Chicken coop'' [] (power_on fr);
          s1 = bulb_clusters_attr_init ZB_ZCL_VERSION s0;
          s2 = LOG LOG_LEVEL_INF ''ZBOSS Light Bulb example started'' [] s1
      in s2\<lparr>motor := stepper_init (motor s2)\<rparr>)"

subsection \<open>The blink alarm, and what the theorems observe\<close>

text \<open>
  Modelled from the spec: the scheduler's side of the self-rescheduling blink timer,
  which is not in the repository. A pending alarm of \<open>toggle_identify_led\<close> expires: the
  scheduler takes it off its list and calls the function with the alarm's parameter.
  \<open>firings n\<close> is \<open>n\<close> expiries in a row; \<open>None\<close> says that no such alarm was pending.
\<close>

definition pending :: "zb_bufid_t \<Rightarrow> 'f app_state \<Rightarrow> bool" where
  "pending bufid s \<longleftrightarrow>
     (toggle_identify_led_cb, bufid, ZB_MILLISECONDS_TO_BEACON_INTERVAL 100) \<in> set (alarms s)"

definition alarm_expires :: "zb_bufid_t \<Rightarrow> 'f app_state \<Rightarrow> 'f app_state option" where
  "alarm_expires bufid s =
     (let a = (toggle_identify_led_cb, bufid, ZB_MILLISECONDS_TO_BEACON_INTERVAL 100)
      in if a \<in> set (alarms s)
         then Some (toggle_identify_led bufid (s\<lparr>alarms := remove1 a (alarms s)\<rparr>))
         else None)"

fun firings :: "nat \<Rightarrow> zb_bufid_t \<Rightarrow> 'f app_state \<Rightarrow> 'f app_state option" where
  "firings 0 bufid s = Some s"
| "firings (Suc n) bufid s =
     (case alarm_expires bufid s of None \<Rightarrow> None | Some s' \<Rightarrow> firings n bufid s')"

text \<open>
  The number of actuation sequences in a trace: every \<open>stepper_run\<close> enables the motor
  exactly once, and nothing else in the repository does.
\<close>

definition actuation_count :: "gpio_event list \<Rightarrow> nat" where
  "actuation_count tr = count_list tr (Pin_clear motor_enable)"

text \<open>The state a call ends in, whether it returned or ended in the error handler.\<close>

definition outcome_state :: "(zb_ret_t \<times> 'f app_state) + 'f app_state \<Rightarrow> 'f app_state" where
  "outcome_state r = (case r of Inl (code, s) \<Rightarrow> s | Inr s \<Rightarrow> s)"

text \<open>
  Concrete inputs: a scenes library that handles nothing, the device right after
  \<open>main\<close>'s initialisation, and three attribute writes: OnOff := 1 on the On/Off
  cluster, a write to attribute 0x4001 (OnTime) of the On/Off cluster, and a write to
  attribute 0 of cluster 8 (Level Control).
\<close>

definition no_scenes ::
    "zb_zcl_device_callback_param_t \<Rightarrow> bulb_device_ctx_t
       \<Rightarrow> bool \<times> zb_zcl_device_callback_param_t \<times> bulb_device_ctx_t" where
  "no_scenes p c = (False, p, c)"

definition s_init :: "unit app_state" where
  "s_init = main_init 8 ()"

definition write_on :: zb_zcl_device_callback_param_t where
  "write_on =
     \<lparr>device_cb_id = ZB_ZCL_SET_ATTR_VALUE_CB_ID, status = RET_OK,
      set_attr_value_param = \<lparr>cluster_id = 6, attr_id = 0, data8 = 1\<rparr>\<rparr>"

definition write_on_time :: zb_zcl_device_callback_param_t where
  "write_on_time =
     \<lparr>device_cb_id = ZB_ZCL_SET_ATTR_VALUE_CB_ID, status = RET_OK,
      set_attr_value_param = \<lparr>cluster_id = 6, attr_id = 0x4001, data8 = 5\<rparr>\<rparr>"

definition write_level :: zb_zcl_device_callback_param_t where
  "write_level =
     \<lparr>device_cb_id = ZB_ZCL_SET_ATTR_VALUE_CB_ID, status = RET_OK,
      set_attr_value_param = \<lparr>cluster_id = 8, attr_id = 0, data8 = 5\<rparr>\<rparr>"

text \<open>
  Further concrete inputs: the initialised device once it has joined a network, the
  same while an identify countdown runs, a write to attribute 0x4000
  (GlobalSceneControl) of the On/Off cluster, and a factory-reset collaborator whose
  state is just its "reset done" flag and whose button check leaves the flag alone.
\<close>

definition s_joined :: "unit app_state" where
  "s_joined = (main_init 8 ())\<lparr>zb_joined := True\<rparr>"

definition s_identifying :: "unit app_state" where
  "s_identifying = s_joined\<lparr>dev_ctx := (dev_ctx s_joined)\<lparr>identify_time := 180\<rparr>\<rparr>"

definition write_global_scene :: zb_zcl_device_callback_param_t where
  "write_global_scene =
     \<lparr>device_cb_id = ZB_ZCL_SET_ATTR_VALUE_CB_ID, status = RET_OK,
      set_attr_value_param = \<lparr>cluster_id = 6, attr_id = 0x4000, data8 = 0\<rparr>\<rparr>"

definition reset_flag :: "bool \<Rightarrow> bool" where
  "reset_flag fr = fr"

definition check_keeps_flag :: "32 word \<Rightarrow> 32 word \<Rightarrow> bool \<Rightarrow> bool" where
  "check_keeps_flag button_state has_changed fr = fr"

section \<open>The actuation sequence\<close>

lemma step_pulse_trace: "trace (step_pulse g) = trace g @ pulse_events"
  by (simp add: step_pulse_def pulse_events_def k_usleep_def nrf_gpio_pin_set_def
      nrf_gpio_pin_clear_def stepper_speed_def)

lemma step_pulse_out_level: "out_level (step_pulse g) = (out_level g)(motor_step := False)"
  by (simp add: step_pulse_def k_usleep_def nrf_gpio_pin_set_def nrf_gpio_pin_clear_def)

lemma step_pulse_cfg_output: "cfg_output (step_pulse g) = cfg_output g"
  by (simp add: step_pulse_def k_usleep_def nrf_gpio_pin_set_def nrf_gpio_pin_clear_def)

lemma stepper_loop_trace:
  "trace (stepper_loop i g) =
     trace g @ concat (replicate (nat (steps_to_endstop - i)) pulse_events)"
proof (induction i g rule: stepper_loop.induct)
  case (1 i g)
  show ?case
  proof (cases "i < steps_to_endstop")
    case True
    then have n: "nat (steps_to_endstop - i) = Suc (nat (steps_to_endstop - (i + 1)))"
      by simp
    show ?thesis
      using True "1.IH" [OF True]
      by (subst stepper_loop.simps) (simp add: n step_pulse_trace)
  next
    case False
    then show ?thesis
      by (subst stepper_loop.simps) simp
  qed
qed

lemma stepper_loop_cfg_output: "cfg_output (stepper_loop i g) = cfg_output g"
proof (induction i g rule: stepper_loop.induct)
  case (1 i g)
  then show ?case
    by (subst stepper_loop.simps) (simp add: step_pulse_cfg_output)
qed

lemma stepper_loop_out_level:
  "out_level (stepper_loop i g) =
     (if i < steps_to_endstop then (out_level g)(motor_step := False) else out_level g)"
proof (induction i g rule: stepper_loop.induct)
  case (1 i g)
  then show ?case
    by (subst stepper_loop.simps) (simp add: step_pulse_out_level)
qed

lemma stepper_run_trace: "trace (stepper_run dir g) = trace g @ run_events dir"
  by (simp add: stepper_run_def Let_def run_events_def stepper_loop_trace
      nrf_gpio_pin_set_def nrf_gpio_pin_clear_def steps_to_endstop_def)

lemma stepper_run_out_level:
  "out_level (stepper_run dir g) =
     (out_level g)(motor_dir := dir, motor_step := False, motor_enable := True)"
  by (auto simp add: stepper_run_def Let_def stepper_loop_out_level
      nrf_gpio_pin_set_def nrf_gpio_pin_clear_def steps_to_endstop_def)

lemma stepper_run_cfg_output: "cfg_output (stepper_run dir g) = cfg_output g"
  by (simp add: stepper_run_def Let_def stepper_loop_cfg_output
      nrf_gpio_pin_set_def nrf_gpio_pin_clear_def)

text \<open>
  C3. For either direction and from any pin state, \<open>stepper_run\<close> issues, in this order:
  enable the motor (clear the active-low enable pin), set the direction pin as the
  argument says, one hundred times the four events step high, sleep 800 us, step low,
  sleep 800 us, and at last disable the motor. When it returns the enable pin is in the
  disabled (set) state, the step pin is low and the direction pin holds the argument.
\<close>

theorem stepper_run_sequence:
  "trace (stepper_run dir g) =
     trace g
     @ [Pin_clear motor_enable, (if dir then Pin_set motor_dir else Pin_clear motor_dir)]
     @ concat (replicate 100
         [Pin_set motor_step, Usleep 800, Pin_clear motor_step, Usleep 800])
     @ [Pin_set motor_enable]
   \<and> out_level (stepper_run dir g) motor_enable
   \<and> \<not> out_level (stepper_run dir g) motor_step
   \<and> out_level (stepper_run dir g) motor_dir = dir"
  by (simp add: stepper_run_trace stepper_run_out_level run_events_def pulse_events_def)




section \<open>The command bridge\<close>

lemmas log_simps = LOG_def app_log_level_def

lemma count_list_concat_replicate:
  "count_list (concat (replicate n xs)) x = n * count_list xs x"
  by (induction n) (simp_all add: count_list_append)

lemma actuation_count_stepper_run:
  "actuation_count (trace (stepper_run dir g)) = actuation_count (trace g) + 1"
  by (simp add: actuation_count_def stepper_run_trace run_events_def pulse_events_def
      count_list_append count_list_concat_replicate)

lemma on_off_set_value_motor:
  "motor (on_off_set_value v s) = stepper_run (v \<noteq> 0) (motor s)"
  by (simp add: on_off_set_value_def Let_def log_simps ZB_ZCL_SET_ATTRIBUTE_def)

lemma on_off_set_value_dev_ctx:
  "dev_ctx (on_off_set_value v s) = (dev_ctx s)\<lparr>on_off := v\<rparr>"
  by (simp add: on_off_set_value_def Let_def log_simps ZB_ZCL_SET_ATTRIBUTE_def)

lemma zcl_on_off_write:
  assumes "device_cb_id p = ZB_ZCL_SET_ATTR_VALUE_CB_ID"
    and "cluster_id (set_attr_value_param p) = ZB_ZCL_CLUSTER_ID_ON_OFF"
    and "attr_id (set_attr_value_param p) = ZB_ZCL_ATTR_ON_OFF_ON_OFF_ID"
  shows "motor (snd (zcl_device_cb sc p s)) =
           stepper_run (data8 (set_attr_value_param p) \<noteq> 0) (motor s)"
    and "dev_ctx (snd (zcl_device_cb sc p s)) =
           (dev_ctx s)\<lparr>on_off := data8 (set_attr_value_param p)\<rparr>"
    and "status (fst (zcl_device_cb sc p s)) = RET_OK"
  using assms
  by (simp_all add: zcl_device_cb_def Let_def log_simps on_off_set_value_motor
      on_off_set_value_dev_ctx ZB_ZCL_CLUSTER_ID_ON_OFF_def ZB_ZCL_ATTR_ON_OFF_ON_OFF_ID_def)

lemma s_init_on_off: "on_off (dev_ctx s_init) = 1"
  by (simp add: s_init_def main_init_def LOG_def app_log_level_def bulb_clusters_attr_init_def Let_def
      ZB_ZCL_SET_ATTRIBUTE_def ZB_ZCL_ON_OFF_IS_ON_def)

lemma main_init_trace:
  "trace (motor (main_init v fr)) =
     [Pin_cfg_output motor_step, Pin_cfg_output motor_dir, Pin_cfg_output motor_enable,
      Pin_set motor_dir, Pin_set motor_enable]"
  by (simp add: main_init_def LOG_def app_log_level_def bulb_clusters_attr_init_def Let_def
      ZB_ZCL_SET_ATTRIBUTE_def power_on_def stepper_init_def nrf_gpio_cfg_output_def
      nrf_gpio_pin_set_def)

lemma write_on_fields:
  "device_cb_id write_on = ZB_ZCL_SET_ATTR_VALUE_CB_ID"
  "cluster_id (set_attr_value_param write_on) = ZB_ZCL_CLUSTER_ID_ON_OFF"
  "attr_id (set_attr_value_param write_on) = ZB_ZCL_ATTR_ON_OFF_ON_OFF_ID"
  "data8 (set_attr_value_param write_on) = 1"
  by (simp_all add: write_on_def ZB_ZCL_CLUSTER_ID_ON_OFF_def
      ZB_ZCL_ATTR_ON_OFF_ON_OFF_ID_def)

text \<open>
  C1, as the code has it. Every write of the OnOff attribute that reaches
  \<open>zcl_device_cb\<close> stores the value and runs the actuation sequence exactly once, in the
  direction of the written value (\<open>stepper_run(true)\<close> for a non-zero value,
  \<open>stepper_run(false)\<close> for zero), whatever the stored value was before: the code
  does not compare the new value with the old one.
\<close>

theorem on_off_write_always_actuates:
  assumes "device_cb_id p = ZB_ZCL_SET_ATTR_VALUE_CB_ID"
    and "cluster_id (set_attr_value_param p) = ZB_ZCL_CLUSTER_ID_ON_OFF"
    and "attr_id (set_attr_value_param p) = ZB_ZCL_ATTR_ON_OFF_ON_OFF_ID"
  shows "on_off (dev_ctx (snd (zcl_device_cb sc p s))) = data8 (set_attr_value_param p)
       \<and> motor (snd (zcl_device_cb sc p s)) =
           stepper_run (data8 (set_attr_value_param p) \<noteq> 0) (motor s)
       \<and> actuation_count (trace (motor (snd (zcl_device_cb sc p s)))) =
           actuation_count (trace (motor s)) + 1"
  using assms
  by (simp add: zcl_on_off_write actuation_count_stepper_run)

text \<open>
  The theorem at the initialised device, whose OnOff attribute is already 1: writing 1
  leaves the attribute as it was and still runs the motor once.
\<close>

theorem on_off_write_always_actuates_witness:
  "device_cb_id write_on = ZB_ZCL_SET_ATTR_VALUE_CB_ID
   \<and> cluster_id (set_attr_value_param write_on) = ZB_ZCL_CLUSTER_ID_ON_OFF
   \<and> attr_id (set_attr_value_param write_on) = ZB_ZCL_ATTR_ON_OFF_ON_OFF_ID
   \<and> on_off (dev_ctx s_init) = data8 (set_attr_value_param write_on)
   \<and> on_off (dev_ctx (snd (zcl_device_cb no_scenes write_on s_init))) = 1
   \<and> motor (snd (zcl_device_cb no_scenes write_on s_init)) = stepper_run True (motor s_init)
   \<and> actuation_count (trace (motor (snd (zcl_device_cb no_scenes write_on s_init)))) =
        actuation_count (trace (motor s_init)) + 1"
proof -
  note t = on_off_write_always_actuates [OF write_on_fields(1-3), of no_scenes s_init]
  from t have a: "on_off (dev_ctx (snd (zcl_device_cb no_scenes write_on s_init))) = 1"
    by (simp add: write_on_fields)
  from t have b: "motor (snd (zcl_device_cb no_scenes write_on s_init)) =
      stepper_run True (motor s_init)"
    by (simp add: write_on_fields)
  from t have c: "actuation_count (trace (motor (snd (zcl_device_cb no_scenes write_on s_init))))
      = actuation_count (trace (motor s_init)) + 1"
    by blast
  from a b c show ?thesis
    by (simp add: write_on_fields s_init_on_off)
qed

text \<open>
  C1 as stated fails: on the initialised device the write OnOff := 1 is delivered twice.
  The stored value is 1 before the first write and stays 1; the first write runs the
  actuation sequence and the second write runs it again.
\<close>

theorem second_on_write_actuates_again:
  "on_off (dev_ctx s_init) = 1
   \<and> actuation_count (trace (motor s_init)) = 0
   \<and> on_off (dev_ctx (snd (zcl_device_cb no_scenes write_on s_init))) = 1
   \<and> actuation_count (trace (motor (snd (zcl_device_cb no_scenes write_on s_init)))) = 1
   \<and> actuation_count (trace (motor (snd (zcl_device_cb no_scenes write_on
        (snd (zcl_device_cb no_scenes write_on s_init)))))) = 2"
proof -
  have z: "actuation_count (trace (motor s_init)) = 0"
    by (simp add: s_init_def main_init_trace actuation_count_def)
  show ?thesis
    by (simp add: zcl_on_off_write [OF write_on_fields(1-3)] write_on_fields(4)
        actuation_count_stepper_run z s_init_on_off)
qed

lemma ucast_8_16_eq_6: "(ucast (y::8 word) :: 16 word) = 6 \<longleftrightarrow> y = 6"
  by (simp add: word_uint_eq_iff uint_up_ucast is_up)

lemma ucast_8_16_eq_0: "(ucast (y::8 word) :: 16 word) = 0 \<longleftrightarrow> y = 0"
  by (simp add: word_uint_eq_iff uint_up_ucast is_up)

lemma zcl_foreign_cluster:
  assumes "device_cb_id p = ZB_ZCL_SET_ATTR_VALUE_CB_ID"
    and "(ucast (cluster_id (set_attr_value_param p)) :: 8 word) \<noteq> 6"
  shows "zcl_device_cb sc p s =
     (p\<lparr>status := RET_NOT_IMPLEMENTED\<rparr>,
      s\<lparr>log_out := log_out s @
         [(LOG_LEVEL_INF, ''%s id %hd'', [Str ''zcl_device_cb'', Cb_id ZB_ZCL_SET_ATTR_VALUE_CB_ID]),
          (LOG_LEVEL_INF, ''Unhandled cluster attribute id: %d'',
             [Num (uint (ucast (cluster_id (set_attr_value_param p)) :: 8 word))]),
          (LOG_LEVEL_INF, ''%s status: %hd'', [Str ''zcl_device_cb'', Ret RET_NOT_IMPLEMENTED])]\<rparr>)"
  using assms
  by (simp add: zcl_device_cb_def Let_def log_simps ZB_ZCL_CLUSTER_ID_ON_OFF_def
      ucast_8_16_eq_6)

lemma zcl_on_off_other_attr:
  assumes "device_cb_id p = ZB_ZCL_SET_ATTR_VALUE_CB_ID"
    and "cluster_id (set_attr_value_param p) = ZB_ZCL_CLUSTER_ID_ON_OFF"
    and "(ucast (attr_id (set_attr_value_param p)) :: 8 word) \<noteq> 0"
  shows "zcl_device_cb sc p s =
     (p\<lparr>status := RET_OK\<rparr>,
      s\<lparr>log_out := log_out s @
         [(LOG_LEVEL_INF, ''%s id %hd'', [Str ''zcl_device_cb'', Cb_id ZB_ZCL_SET_ATTR_VALUE_CB_ID]),
          (LOG_LEVEL_INF, ''on/off attribute setting to %hd'',
             [Num (uint (data8 (set_attr_value_param p)))]),
          (LOG_LEVEL_INF, ''%s status: %hd'', [Str ''zcl_device_cb'', Ret RET_OK])]\<rparr>)"
  using assms
  by (simp add: zcl_device_cb_def Let_def log_simps ZB_ZCL_CLUSTER_ID_ON_OFF_def
      ZB_ZCL_ATTR_ON_OFF_ON_OFF_ID_def ucast_8_16_eq_0)

text \<open>
  C2, as the code has it. An attribute write whose cluster identifier differs from the
  On/Off cluster's in its low byte is answered with \<open>RET_NOT_IMPLEMENTED\<close>; a write to
  the On/Off cluster whose attribute identifier has a non-zero low byte is answered with
  \<open>RET_OK\<close>. Neither changes the attribute storage or the motor pins.
\<close>

theorem other_write_leaves_store:
  assumes "device_cb_id p = ZB_ZCL_SET_ATTR_VALUE_CB_ID"
    and "(ucast (cluster_id (set_attr_value_param p)) :: 8 word) \<noteq> 6
         \<or> (cluster_id (set_attr_value_param p) = ZB_ZCL_CLUSTER_ID_ON_OFF
            \<and> (ucast (attr_id (set_attr_value_param p)) :: 8 word) \<noteq> 0)"
  shows "dev_ctx (snd (zcl_device_cb sc p s)) = dev_ctx s
       \<and> motor (snd (zcl_device_cb sc p s)) = motor s
       \<and> status (fst (zcl_device_cb sc p s)) =
           (if cluster_id (set_attr_value_param p) = ZB_ZCL_CLUSTER_ID_ON_OFF
            then RET_OK else RET_NOT_IMPLEMENTED)"
proof (cases "(ucast (cluster_id (set_attr_value_param p)) :: 8 word) \<noteq> 6")
  case True
  then have "cluster_id (set_attr_value_param p) \<noteq> ZB_ZCL_CLUSTER_ID_ON_OFF"
    by (auto simp add: ZB_ZCL_CLUSTER_ID_ON_OFF_def)
  then show ?thesis
    by (simp add: zcl_foreign_cluster [OF assms(1) True])
next
  case False
  with assms(2) have c: "cluster_id (set_attr_value_param p) = ZB_ZCL_CLUSTER_ID_ON_OFF"
    and a: "(ucast (attr_id (set_attr_value_param p)) :: 8 word) \<noteq> 0"
    by simp_all
  show ?thesis
    by (simp add: zcl_on_off_other_attr [OF assms(1) c a] c)
qed

text \<open>
  The theorem at a write to the Level Control cluster and at a write to the OnTime
  attribute of the On/Off cluster.
\<close>

theorem other_write_leaves_store_witness:
  "device_cb_id write_level = ZB_ZCL_SET_ATTR_VALUE_CB_ID
   \<and> (ucast (cluster_id (set_attr_value_param write_level)) :: 8 word) \<noteq> 6
   \<and> dev_ctx (snd (zcl_device_cb no_scenes write_level s_init)) = dev_ctx s_init
   \<and> motor (snd (zcl_device_cb no_scenes write_level s_init)) = motor s_init
   \<and> status (fst (zcl_device_cb no_scenes write_level s_init)) = RET_NOT_IMPLEMENTED
   \<and> device_cb_id write_on_time = ZB_ZCL_SET_ATTR_VALUE_CB_ID
   \<and> cluster_id (set_attr_value_param write_on_time) = ZB_ZCL_CLUSTER_ID_ON_OFF
   \<and> (ucast (attr_id (set_attr_value_param write_on_time)) :: 8 word) \<noteq> 0
   \<and> dev_ctx (snd (zcl_device_cb no_scenes write_on_time s_init)) = dev_ctx s_init
   \<and> motor (snd (zcl_device_cb no_scenes write_on_time s_init)) = motor s_init
   \<and> status (fst (zcl_device_cb no_scenes write_on_time s_init)) = RET_OK"
proof -
  have l: "device_cb_id write_level = ZB_ZCL_SET_ATTR_VALUE_CB_ID"
    "(ucast (cluster_id (set_attr_value_param write_level)) :: 8 word) \<noteq> 6"
    "cluster_id (set_attr_value_param write_level) \<noteq> ZB_ZCL_CLUSTER_ID_ON_OFF"
    by (simp_all add: write_level_def ZB_ZCL_CLUSTER_ID_ON_OFF_def)
  have t: "device_cb_id write_on_time = ZB_ZCL_SET_ATTR_VALUE_CB_ID"
    "cluster_id (set_attr_value_param write_on_time) = ZB_ZCL_CLUSTER_ID_ON_OFF"
    "(ucast (attr_id (set_attr_value_param write_on_time)) :: 8 word) \<noteq> 0"
    by (simp_all add: write_on_time_def ZB_ZCL_CLUSTER_ID_ON_OFF_def)
  from l t
    other_write_leaves_store [of write_level no_scenes s_init]
    other_write_leaves_store [of write_on_time no_scenes s_init]
  show ?thesis
    by simp
qed

text \<open>
  C2 as stated fails: the write to attribute 0x4001 of the On/Off cluster, which is not
  the OnOff attribute, is answered with \<open>RET_OK\<close>, not with \<open>RET_NOT_IMPLEMENTED\<close>.
\<close>

theorem on_time_write_reports_ok:
  "cluster_id (set_attr_value_param write_on_time) = ZB_ZCL_CLUSTER_ID_ON_OFF
   \<and> attr_id (set_attr_value_param write_on_time) \<noteq> ZB_ZCL_ATTR_ON_OFF_ON_OFF_ID
   \<and> status (fst (zcl_device_cb no_scenes write_on_time s_init)) = RET_OK
   \<and> status (fst (zcl_device_cb no_scenes write_on_time s_init)) \<noteq> RET_NOT_IMPLEMENTED"
proof -
  have t: "device_cb_id write_on_time = ZB_ZCL_SET_ATTR_VALUE_CB_ID"
    "cluster_id (set_attr_value_param write_on_time) = ZB_ZCL_CLUSTER_ID_ON_OFF"
    "(ucast (attr_id (set_attr_value_param write_on_time)) :: 8 word) \<noteq> 0"
    "attr_id (set_attr_value_param write_on_time) \<noteq> ZB_ZCL_ATTR_ON_OFF_ON_OFF_ID"
    by (simp_all add: write_on_time_def ZB_ZCL_CLUSTER_ID_ON_OFF_def
        ZB_ZCL_ATTR_ON_OFF_ON_OFF_ID_def)
  show ?thesis
    by (simp add: zcl_on_off_other_attr [OF t(1-3)] t)
qed

text \<open>
  The low-byte comparison at work: attribute 0x4000 of the On/Off cluster has the low
  byte of the OnOff attribute, so a write to it is taken for a write of OnOff. It
  overwrites the stored OnOff value and runs the motor.
\<close>

lemma global_scene_write_taken_for_on_off:
  "attr_id (set_attr_value_param write_global_scene) \<noteq> ZB_ZCL_ATTR_ON_OFF_ON_OFF_ID
   \<and> on_off (dev_ctx s_init) = 1
   \<and> on_off (dev_ctx (snd (zcl_device_cb no_scenes write_global_scene s_init))) = 0
   \<and> motor (snd (zcl_device_cb no_scenes write_global_scene s_init)) =
       stepper_run False (motor s_init)"
  by (simp add: write_global_scene_def zcl_device_cb_def Let_def log_simps
      on_off_set_value_motor on_off_set_value_dev_ctx ZB_ZCL_CLUSTER_ID_ON_OFF_def
      ZB_ZCL_ATTR_ON_OFF_ON_OFF_ID_def s_init_on_off)

section \<open>The identify blink\<close>


lemma smod_2_cases: "(k::int) smod 2 = (if even k then 0 else if k < 0 then - 1 else 1)"
  by (auto simp add: signed_modulo_int_def sgn_if abs_if mod_2_eq_odd dest: odd_pos)

lemma even_sint_32: "even (sint (w::32 word)) \<longleftrightarrow> even w"
proof -
  have a: "bit (sint w) 0 = bit w 0"
    by (simp only: bit_sint_iff) simp
  have b: "bit (sint w) 0 = odd (sint w)"
    by (rule bit_0)
  have c: "bit w 0 = odd w"
    by (rule bit_0)
  from a b c show ?thesis
    by blast
qed

lemma c_rem_2_nonzero: "(word_of_int (sint (w::32 word) smod 2) :: 32 word) \<noteq> 0 \<longleftrightarrow> odd w"
  by (simp add: smod_2_cases even_sint_32)

lemma toggle_blink_status: "blink_status (toggle_identify_led b s) = blink_status s + 1"
  by (simp add: toggle_identify_led_def Let_def dk_set_led_def ZB_SCHEDULE_APP_ALARM_def)

lemma toggle_led:
  "leds (toggle_identify_led b s) = (leds s)(IDENTIFY_LED := odd (blink_status s + 1))"
  by (simp add: toggle_identify_led_def Let_def dk_set_led_def ZB_SCHEDULE_APP_ALARM_def
      c_rem_2_nonzero)

lemma toggle_alarms:
  "alarms (toggle_identify_led b s) =
     alarms s @ [(toggle_identify_led_cb, b, ZB_MILLISECONDS_TO_BEACON_INTERVAL 100)]"
  by (simp add: toggle_identify_led_def Let_def dk_set_led_def ZB_SCHEDULE_APP_ALARM_def)

lemma toggle_frame:
  "dev_ctx (toggle_identify_led b s) = dev_ctx s"
  "motor (toggle_identify_led b s) = motor s"
  "cb_queue (toggle_identify_led b s) = cb_queue s"
  "zb_calls (toggle_identify_led b s) = zb_calls s"
  by (simp_all add: toggle_identify_led_def Let_def dk_set_led_def ZB_SCHEDULE_APP_ALARM_def)

lemma alarm_expires_pending:
  assumes "pending b s"
  shows "\<exists>s'. alarm_expires b s = Some s' \<and> pending b s'
           \<and> blink_status s' = blink_status s + 1
           \<and> leds s' IDENTIFY_LED = odd (blink_status s')"
  using assms
  by (simp add: alarm_expires_def pending_def Let_def toggle_blink_status toggle_led
      toggle_alarms)

lemma firings_pending:
  "pending b s \<Longrightarrow>
     \<exists>s'. firings n b s = Some s' \<and> pending b s'
        \<and> blink_status s' = blink_status s + of_nat n
        \<and> (0 < n \<longrightarrow> leds s' IDENTIFY_LED = odd (blink_status s'))"
proof (induction n arbitrary: s)
  case 0
  then show ?case by simp
next
  case (Suc n)
  from alarm_expires_pending [OF Suc.prems] obtain s1 where
    s1: "alarm_expires b s = Some s1" "pending b s1"
        "blink_status s1 = blink_status s + 1" "leds s1 IDENTIFY_LED = odd (blink_status s1)"
    by blast
  from Suc.IH [OF s1(2)] obtain s2 where
    s2: "firings n b s1 = Some s2" "pending b s2"
        "blink_status s2 = blink_status s1 + of_nat n"
        "0 < n \<longrightarrow> leds s2 IDENTIFY_LED = odd (blink_status s2)"
    by blast
  have "leds s2 IDENTIFY_LED = odd (blink_status s2)"
  proof (cases n)
    case 0
    with s2(1) s1(4) show ?thesis by simp
  next
    case (Suc m)
    with s2(4) show ?thesis by simp
  qed
  with s1 s2 show ?case
    by (simp add: add.assoc)
qed

text \<open>
  C6. Each firing of \<open>toggle_identify_led\<close> increments \<open>blink_status\<close>, whose parity
  is the blink phase, drives the identify LED to the new parity and schedules itself
  again 100 ms later. So the LED after a firing is the opposite of the LED after the
  firing before; and while the alarm is pending any number of firings can follow one
  another, each leaving the alarm pending and the LED inverted: the code holds no count
  that would end the blinking.
\<close>

theorem blink_alternates_without_limit:
  "blink_status (toggle_identify_led b s) = blink_status s + 1
   \<and> leds (toggle_identify_led b s) IDENTIFY_LED = odd (blink_status (toggle_identify_led b s))
   \<and> alarms (toggle_identify_led b s) =
       alarms s @ [(toggle_identify_led_cb, b, ZB_MILLISECONDS_TO_BEACON_INTERVAL 100)]
   \<and> leds (toggle_identify_led b (toggle_identify_led b s)) IDENTIFY_LED =
       (\<not> leds (toggle_identify_led b s) IDENTIFY_LED)
   \<and> (pending b s \<longrightarrow>
        (\<exists>s1 s2. firings (Suc n) b s = Some s1 \<and> alarm_expires b s1 = Some s2
           \<and> pending b s2
           \<and> leds s2 IDENTIFY_LED = (\<not> leds s1 IDENTIFY_LED)))"
proof -
  have last: "\<exists>s1 s2. firings (Suc n) b s = Some s1 \<and> alarm_expires b s1 = Some s2
           \<and> pending b s2 \<and> leds s2 IDENTIFY_LED = (\<not> leds s1 IDENTIFY_LED)"
    if p: "pending b s"
  proof -
    from firings_pending [OF p, of "Suc n"] obtain s1 where
      s1: "firings (Suc n) b s = Some s1" "pending b s1"
          "leds s1 IDENTIFY_LED = odd (blink_status s1)"
      by auto
    from alarm_expires_pending [OF s1(2)] obtain s2 where
      s2: "alarm_expires b s1 = Some s2" "pending b s2"
          "blink_status s2 = blink_status s1 + 1" "leds s2 IDENTIFY_LED = odd (blink_status s2)"
      by blast
    from s1 s2 show ?thesis
      by simp
  qed
  show ?thesis
    using last by (simp add: toggle_blink_status toggle_led toggle_alarms)
qed

text \<open>The theorem at the state after a first firing, where the alarm is pending.\<close>

theorem blink_alternates_without_limit_witness:
  "pending 1 (toggle_identify_led 1 (power_on ()))
   \<and> (\<exists>s1 s2. firings (Suc 3) 1 (toggle_identify_led 1 (power_on ())) = Some s1
         \<and> alarm_expires 1 s1 = Some s2 \<and> pending 1 s2
         \<and> leds s2 IDENTIFY_LED = (\<not> leds s1 IDENTIFY_LED))"
proof -
  have p: "pending 1 (toggle_identify_led 1 (power_on ()))"
    by (simp add: pending_def toggle_alarms)
  from blink_alternates_without_limit [of 1 "toggle_identify_led 1 (power_on ())" 3] p
  show ?thesis
    by blast
qed

lemma cancel_alarm_none:
  "filter (\<lambda>a. fst a = f) xs = [] \<Longrightarrow> cancel_alarm f param xs = xs"
  by (induction xs) (auto split: if_splits)

lemma cancel_alarm_single:
  "length (filter (\<lambda>a. fst a = f) xs) \<le> 1 \<Longrightarrow>
     filter (\<lambda>a. fst a = f) (cancel_alarm f ZB_ALARM_ANY_PARAM xs) = []"
  by (induction xs) (auto split: if_splits)

lemma identify_cb_0_alarms:
  "alarms (identify_cb 0 s) =
     cancel_alarm toggle_identify_led_cb ZB_ALARM_ANY_PARAM (alarms s)"
  by (simp add: identify_cb_def dk_set_led_def ZB_SCHEDULE_APP_ALARM_CANCEL_def)

lemma identify_cb_0_leds:
  "leds (identify_cb 0 s) = (leds s)(IDENTIFY_LED := False)"
  by (simp add: identify_cb_def dk_set_led_def ZB_SCHEDULE_APP_ALARM_CANCEL_def)

lemma identify_cb_0_blink_status:
  "blink_status (identify_cb 0 s) = blink_status s"
  by (simp add: identify_cb_def dk_set_led_def ZB_SCHEDULE_APP_ALARM_CANCEL_def)

lemma identify_cb_0_inactive:
  assumes "filter (\<lambda>a. fst a = toggle_identify_led_cb) (alarms s) = []"
    and "\<not> leds s IDENTIFY_LED"
  shows "identify_cb 0 s = s"
proof -
  have "(leds s)(IDENTIFY_LED := False) = leds s"
    using assms(2) by (simp add: fun_upd_idem)
  then show ?thesis
    by (simp add: identify_cb_def dk_set_led_def ZB_SCHEDULE_APP_ALARM_CANCEL_def
        cancel_alarm_none [OF assms(1)])
qed

lemma no_alarm_no_expiry:
  "filter (\<lambda>a. fst a = toggle_identify_led_cb) (alarms s) = [] \<Longrightarrow> alarm_expires b s = None"
  by (auto simp add: alarm_expires_def Let_def filter_empty_conv)

text \<open>
  C4, as the code has it. The identify callback with buffer 0 cancels the pending alarm
  of \<open>toggle_identify_led\<close> and drives the identify LED low. With at most one such alarm
  pending, which is what one blink session keeps, none is pending afterwards and no
  further firing can happen. The callback leaves \<open>blink_status\<close>, the blink phase, as
  it is: the counter is a static local of \<open>toggle_identify_led\<close> and lives on across
  sessions. When no such alarm is pending and the LED is low, the cancel changes nothing
  at all.
\<close>

theorem identify_cancel_keeps_phase:
  "alarms (identify_cb 0 s) =
     cancel_alarm toggle_identify_led_cb ZB_ALARM_ANY_PARAM (alarms s)
   \<and> (length (filter (\<lambda>a. fst a = toggle_identify_led_cb) (alarms s)) \<le> 1 \<longrightarrow>
        filter (\<lambda>a. fst a = toggle_identify_led_cb) (alarms (identify_cb 0 s)) = []
        \<and> alarm_expires b (identify_cb 0 s) = None)
   \<and> \<not> leds (identify_cb 0 s) IDENTIFY_LED
   \<and> blink_status (identify_cb 0 s) = blink_status s
   \<and> (filter (\<lambda>a. fst a = toggle_identify_led_cb) (alarms s) = [] \<and> \<not> leds s IDENTIFY_LED
        \<longrightarrow> identify_cb 0 s = s)"
proof -
  have one: "filter (\<lambda>a. fst a = toggle_identify_led_cb) (alarms (identify_cb 0 s)) = []
      \<and> alarm_expires b (identify_cb 0 s) = None"
    if "length (filter (\<lambda>a. fst a = toggle_identify_led_cb) (alarms s)) \<le> 1"
  proof -
    from that have "filter (\<lambda>a. fst a = toggle_identify_led_cb) (alarms (identify_cb 0 s)) = []"
      by (simp add: identify_cb_0_alarms cancel_alarm_single)
    then show ?thesis
      by (simp add: no_alarm_no_expiry)
  qed
  show ?thesis
    using one
    by (simp add: identify_cb_0_alarms identify_cb_0_leds identify_cb_0_blink_status
        identify_cb_0_inactive)
qed

text \<open>The theorem at power-on, where nothing is scheduled and the LED is off.\<close>

theorem identify_cancel_keeps_phase_witness:
  "filter (\<lambda>a. fst a = toggle_identify_led_cb) (alarms (power_on ())) = []
   \<and> \<not> leds (power_on ()) IDENTIFY_LED
   \<and> identify_cb 0 (power_on ()) = power_on ()
   \<and> length (filter (\<lambda>a. fst a = toggle_identify_led_cb)
        (alarms (toggle_identify_led 1 (power_on ())))) \<le> 1
   \<and> alarm_expires 1 (identify_cb 0 (toggle_identify_led 1 (power_on ()))) = None"
proof -
  have h: "filter (\<lambda>a. fst a = toggle_identify_led_cb) (alarms (power_on ())) = []"
    "\<not> leds (power_on ()) IDENTIFY_LED"
    by (simp_all add: power_on_def)
  have a: "alarms (toggle_identify_led 1 (power_on ())) =
      [(toggle_identify_led_cb, 1, ZB_MILLISECONDS_TO_BEACON_INTERVAL 100)]"
    by (simp add: toggle_alarms power_on_def)
  from identify_cancel_keeps_phase [of "power_on ()"] h
  have "identify_cb 0 (power_on ()) = power_on ()"
    by blast
  moreover from identify_cancel_keeps_phase [of "toggle_identify_led 1 (power_on ())" 1]
  have "alarm_expires 1 (identify_cb 0 (toggle_identify_led 1 (power_on ()))) = None"
    by (simp add: a)
  ultimately show ?thesis
    using h a by simp
qed

text \<open>
  C4 as stated fails: from power-on, the first firing of the first session lights the
  LED. After one firing and a cancel the phase is 1, not the initial 0, and the first
  firing of the next session drives the LED low.
\<close>

theorem cancel_does_not_reset_phase:
  "blink_status (power_on ()) = 0
   \<and> leds (toggle_identify_led 1 (power_on ())) IDENTIFY_LED
   \<and> blink_status (identify_cb 0 (toggle_identify_led 1 (power_on ()))) = 1
   \<and> \<not> leds (toggle_identify_led 1 (identify_cb 0 (toggle_identify_led 1 (power_on ()))))
         IDENTIFY_LED"
  by (simp add: toggle_led toggle_blink_status identify_cb_0_blink_status power_on_def)

section \<open>The identify button and the identify toggle\<close>

text \<open>
  C5. On a release of the identify button (its bit set in \<open>has_changed\<close>, clear in
  \<open>button_state\<close>) \<open>button_changed\<close> asks the factory-reset collaborator: if the
  reset was done, nothing is scheduled; if not, exactly one \<open>start_identifying\<close>
  callback is queued. While the button's bit is set in \<open>button_state\<close> (a press), or
  when the button did not change, nothing is queued. No alarm, stack call, LED or
  attribute changes in any case.
\<close>

theorem button_release_classified:
  "(IDENTIFY_MODE_BUTTON AND has_changed \<noteq> 0 \<and> IDENTIFY_MODE_BUTTON AND button_state = 0 \<longrightarrow>
      cb_queue (button_changed wfrd cfrb button_state has_changed s) =
        (if wfrd (factory_reset_context s) then cb_queue s
         else cb_queue s @ [(start_identifying_cb, 0)]))
   \<and> (IDENTIFY_MODE_BUTTON AND button_state \<noteq> 0 \<longrightarrow>
        cb_queue (button_changed wfrd cfrb button_state has_changed s) = cb_queue s)
   \<and> (IDENTIFY_MODE_BUTTON AND has_changed = 0 \<longrightarrow>
        cb_queue (button_changed wfrd cfrb button_state has_changed s) = cb_queue s)
   \<and> alarms (button_changed wfrd cfrb button_state has_changed s) = alarms s
   \<and> zb_calls (button_changed wfrd cfrb button_state has_changed s) = zb_calls s
   \<and> leds (button_changed wfrd cfrb button_state has_changed s) = leds s
   \<and> dev_ctx (button_changed wfrd cfrb button_state has_changed s) = dev_ctx s"
  by (simp add: button_changed_def Let_def log_simps ZB_SCHEDULE_APP_CALLBACK_def)

lemma button_masks:
  "IDENTIFY_MODE_BUTTON AND (8::32 word) \<noteq> 0"
  "IDENTIFY_MODE_BUTTON AND (0::32 word) = 0"
  by (simp_all add: IDENTIFY_MODE_BUTTON_def DK_BTN4_MSK_def)

text \<open>
  The theorem at a release after a reset, a release without one, a press, and an event
  of another button.
\<close>

theorem button_release_classified_witness:
  "IDENTIFY_MODE_BUTTON AND (8::32 word) \<noteq> 0 \<and> IDENTIFY_MODE_BUTTON AND (0::32 word) = 0
   \<and> cb_queue (button_changed reset_flag check_keeps_flag 0 8 (power_on True)) = []
   \<and> cb_queue (button_changed reset_flag check_keeps_flag 0 8 (power_on False)) =
        [(start_identifying_cb, 0)]
   \<and> cb_queue (button_changed reset_flag check_keeps_flag 8 8 (power_on False)) = []
   \<and> cb_queue (button_changed reset_flag check_keeps_flag 0 0 (power_on False)) = []"
proof -
  have f: "factory_reset_context (power_on True)" "\<not> factory_reset_context (power_on False)"
    "cb_queue (power_on True) = []" "cb_queue (power_on False) = []"
    by (simp_all add: power_on_def)
  from button_release_classified [where has_changed = 8 and button_state = 0
      and wfrd = reset_flag and cfrb = check_keeps_flag and s = "power_on True"]
    button_release_classified [where has_changed = 8 and button_state = 0
      and wfrd = reset_flag and cfrb = check_keeps_flag and s = "power_on False"]
    button_release_classified [where has_changed = 8 and button_state = 8
      and wfrd = reset_flag and cfrb = check_keeps_flag and s = "power_on False"]
    button_release_classified [where has_changed = 0 and button_state = 0
      and wfrd = reset_flag and cfrb = check_keeps_flag and s = "power_on False"]
  show ?thesis
    using button_masks f by (simp add: reset_flag_def)
qed

text \<open>
  C7. On a joined device \<open>start_identifying\<close> is a toggle: with the identify time at
  its default it calls \<open>zb_bdb_finding_binding_target\<close> for the endpoint, the attempt
  to enter identify mode, whatever that call answers; with any other identify time it
  returns after calling \<open>zb_bdb_finding_binding_target_cancel\<close> and starts nothing.
\<close>

theorem start_identifying_toggles:
  assumes "zb_joined s"
  shows "(identify_time (dev_ctx s) = ZB_ZCL_IDENTIFY_IDENTIFY_TIME_DEFAULT_VALUE \<longrightarrow>
            zb_calls (outcome_state (start_identifying r b s)) =
              zb_calls s @ [Zb_bdb_finding_binding_target CHICKEN_COOP_ENDPOINT])
       \<and> (identify_time (dev_ctx s) \<noteq> ZB_ZCL_IDENTIFY_IDENTIFY_TIME_DEFAULT_VALUE \<longrightarrow>
            (\<exists>s'. start_identifying r b s = Inr s'
               \<and> zb_calls s' = zb_calls s @ [Zb_bdb_finding_binding_target_cancel]))"
  using assms
  by (simp add: start_identifying_def Let_def log_simps outcome_state_def ZB_ERROR_CHECK_def)

text \<open>The theorem on the joined device, idle and while identifying.\<close>

theorem start_identifying_toggles_witness:
  "zb_joined s_joined
   \<and> identify_time (dev_ctx s_joined) = ZB_ZCL_IDENTIFY_IDENTIFY_TIME_DEFAULT_VALUE
   \<and> zb_calls (outcome_state (start_identifying RET_OK 0 s_joined)) =
        [Zb_bdb_finding_binding_target 10]
   \<and> zb_joined s_identifying
   \<and> identify_time (dev_ctx s_identifying) \<noteq> ZB_ZCL_IDENTIFY_IDENTIFY_TIME_DEFAULT_VALUE
   \<and> (\<exists>s'. start_identifying RET_OK 0 s_identifying = Inr s'
         \<and> zb_calls s' = [Zb_bdb_finding_binding_target_cancel])"
proof -
  have j: "zb_joined s_joined" "zb_calls s_joined = []"
    "identify_time (dev_ctx s_joined) = ZB_ZCL_IDENTIFY_IDENTIFY_TIME_DEFAULT_VALUE"
    by (simp_all add: s_joined_def main_init_def LOG_def app_log_level_def bulb_clusters_attr_init_def Let_def
        ZB_ZCL_SET_ATTRIBUTE_def power_on_def)
  have i: "zb_joined s_identifying" "zb_calls s_identifying = []"
    "identify_time (dev_ctx s_identifying) \<noteq> ZB_ZCL_IDENTIFY_IDENTIFY_TIME_DEFAULT_VALUE"
    by (simp_all add: s_identifying_def j ZB_ZCL_IDENTIFY_IDENTIFY_TIME_DEFAULT_VALUE_def)
  from start_identifying_toggles [OF j(1), of RET_OK 0]
    start_identifying_toggles [OF i(1), of RET_OK 0]
  show ?thesis
    using j i by (simp add: CHICKEN_COOP_ENDPOINT_def)
qed

text \<open>
  C8. When the device has not joined a network, \<open>start_identifying\<close> returns normally
  and the only thing it does is to log a warning: no stack call, no scheduled callback
  or alarm, no attribute, LED or pin changes.
\<close>

theorem start_identifying_not_joined:
  assumes "\<not> zb_joined s"
  shows "start_identifying r b s =
     Inr (s\<lparr>log_out := log_out s @
       [(LOG_LEVEL_WRN, ''Device not in a network - cannot enter identify mode'', [])]\<rparr>)"
  using assms
  by (simp add: start_identifying_def log_simps)

text \<open>The theorem on the initialised device, which has not joined.\<close>

theorem start_identifying_not_joined_witness:
  "\<not> zb_joined s_init
   \<and> start_identifying RET_OK 0 s_init =
     Inr (s_init\<lparr>log_out := log_out s_init @
       [(LOG_LEVEL_WRN, ''Device not in a network - cannot enter identify mode'', [])]\<rparr>)"
proof -
  have n: "\<not> zb_joined s_init"
    by (simp add: s_init_def main_init_def LOG_def app_log_level_def bulb_clusters_attr_init_def Let_def
        ZB_ZCL_SET_ATTRIBUTE_def power_on_def)
  from start_identifying_not_joined [OF n, of RET_OK 0] n show ?thesis
    by blast
qed

section \<open>Start-up\<close>

lemma bulb_clusters_attr_init_frame:
  "bulb_clusters_attr_init v s = s\<lparr>dev_ctx := dev_ctx (bulb_clusters_attr_init v s)\<rparr>"
  by (simp add: bulb_clusters_attr_init_def Let_def ZB_ZCL_SET_ATTRIBUTE_def)

text \<open>
  C10. \<open>bulb_clusters_attr_init\<close> sets the OnOff attribute to \<open>ZB_ZCL_ON_OFF_IS_ON\<close>,
  which is 1, and leaves the motor pins and their trace untouched; after the whole
  initialisation in \<open>main\<close> the trace holds the five operations of \<open>stepper_init\<close>
  and no step pulse. Of the handlers in main.c, the button callback,
  \<open>start_identifying\<close>, \<open>toggle_identify_led\<close>, \<open>identify_cb\<close> and \<open>zcl_device_cb\<close>
  on any callback other than an attribute write leave the motor untouched as well.
\<close>

theorem attr_init_does_not_actuate:
  "on_off (dev_ctx (bulb_clusters_attr_init v s)) = ZB_ZCL_ON_OFF_IS_ON
   \<and> ZB_ZCL_ON_OFF_IS_ON = 1
   \<and> motor (bulb_clusters_attr_init v s) = motor s
   \<and> trace (motor (main_init v fr)) =
       [Pin_cfg_output motor_step, Pin_cfg_output motor_dir, Pin_cfg_output motor_enable,
        Pin_set motor_dir, Pin_set motor_enable]
   \<and> motor (button_changed wfrd cfrb button_state has_changed s) = motor s
   \<and> motor (outcome_state (start_identifying r b s)) = motor s
   \<and> motor (toggle_identify_led b s) = motor s
   \<and> motor (identify_cb b s) = motor s
   \<and> motor (snd (zcl_device_cb sc (p\<lparr>device_cb_id := ZB_ZCL_OTHER_CB_ID n\<rparr>) s)) = motor s"
proof -
  have a: "on_off (dev_ctx (bulb_clusters_attr_init v s)) = ZB_ZCL_ON_OFF_IS_ON"
    "motor (bulb_clusters_attr_init v s) = motor s"
    by (simp_all add: bulb_clusters_attr_init_def Let_def ZB_ZCL_SET_ATTRIBUTE_def)
  have b: "motor (button_changed wfrd cfrb button_state has_changed s) = motor s"
    by (simp add: button_changed_def Let_def log_simps ZB_SCHEDULE_APP_CALLBACK_def)
  have c: "motor (outcome_state (start_identifying r b s)) = motor s"
    by (simp add: start_identifying_def Let_def log_simps outcome_state_def ZB_ERROR_CHECK_def)
  have d: "motor (identify_cb b s) = motor s"
    by (simp add: identify_cb_def dk_set_led_def ZB_SCHEDULE_APP_ALARM_CANCEL_def
        ZB_SCHEDULE_APP_CALLBACK_def)
  have e: "motor (snd (zcl_device_cb sc (p\<lparr>device_cb_id := ZB_ZCL_OTHER_CB_ID n\<rparr>) s)) = motor s"
    by (simp add: zcl_device_cb_def Let_def log_simps split: prod.splits)
  show ?thesis
    by (simp add: a b c d e main_init_trace toggle_frame ZB_ZCL_ON_OFF_IS_ON_def)
qed

end
